theory Spec2Isabelle
  imports Complex_Main "HOL-Library.Char_ord" "HOL-Library.List_Lexorder"
begin

section \<open>The benchmark harness \<^verbatim>\<open>bench.py\<close> as a state-passing program\<close>

text \<open>
  \<^verbatim>\<open>bench.py\<close> is a script: three helper functions that spawn child processes, the
  command line declarations, and a script body that overrides the \<^verbatim>\<open>DATABASE\<close>
  environment variable, optionally profiles, samples every variant, restores the
  variable and dumps the measurements to a timestamped file.

  Everything the script does to the outside is made explicit. What the outside answers
  (the clock, the child processes, the decoding of their output, the calendar time,
  whether the output file can be opened) is a \<open>world\<close>, read through counters kept in
  the state; what the script does is logged, in order, in the state's \<open>trace\<close>. Every
  exception the script can meet is a value of \<open>error\<close>, returned with the state reached
  when it was raised. Python floats are idealised as reals.
\<close>

subsection \<open>Data\<close>

datatype error =
    ZeroDivisionError
  | KeyError
  | TypeError
  | AttributeError
  | OSError
  | FileNotFoundError
  | UnicodeDecodeError

text \<open>The value of \<^verbatim>\<open>subprocess.run\<close>: exit status (negative when killed by a signal) and
  the captured streams, \<open>None\<close> when they were not captured.\<close>

record completed_process =
  returncode :: int
  stdout :: "string option"
  stderr :: "string option"

text \<open>What a child process does by itself: whether its program can be started at all, its
  exit status (negative when a signal killed it) and the bytes it writes.\<close>

record child =
  starts :: bool
  exit_status :: int
  writes_out :: string
  writes_err :: string

record datetime =
  dt_year :: nat
  dt_month :: nat
  dt_day :: nat
  dt_hour :: nat
  dt_minute :: nat
  dt_second :: nat
  dt_microsecond :: nat

text \<open>The values held by the \<^verbatim>\<open>measurements\<close> dictionary: lists of floats, and the note.\<close>

datatype jvalue = Samples "real list" | Text string

type_synonym dict = "(string \<times> jvalue) list"

datatype line =
    Ack string int bool
  | MeanLine string real

datatype event =
    Spawn "string list" bool
  | Inherited string string
  | Print line
  | SetEnv string string
  | Dump string dict

text \<open>The world: the successive readings of \<^verbatim>\<open>time.time()\<close>, the successive child
  processes, the strict decoder of the locale's encoding (\<open>None\<close> where it rejects the
  bytes), the reading of \<^verbatim>\<open>datetime.now()\<close>, which is the local wall-clock time, with
  the instant at which it is taken (microseconds since the Unix epoch) and the UTC offset in
  force then (seconds), and whether opening the output file fails.\<close>

record world =
  time_at :: "nat \<Rightarrow> real"
  child_at :: "nat \<Rightarrow> child"
  decode :: "string \<Rightarrow> string option"
  now_at :: datetime
  instant :: nat
  utc_offset :: int
  open_fails :: bool

record state =
  environ :: "string \<rightharpoonup> string"
  files :: "string \<rightharpoonup> dict"
  trace :: "event list"
  ticks :: nat
  spawned :: nat
  measurements :: dict

record args =
  note_text :: string
  samples :: int
  profile :: bool

text \<open>The option values as the command line front end hands them to the declared
  \<^verbatim>\<open>type\<close> converters: \<open>None\<close> when the flag is absent. The \<^verbatim>\<open>--samples\<close> value has
  passed \<^verbatim>\<open>int\<close> already (a malformed one is rejected by the front end).\<close>

record raw_args =
  note_arg :: "string option"
  samples_arg :: "int option"
  profile_arg :: "string option"

type_synonym outcome = "error option \<times> state"

subsection \<open>Python primitives\<close>

text \<open>\<^verbatim>\<open>bool(s)\<close> of a string: true unless the string is empty.\<close>

definition py_bool :: "string \<Rightarrow> bool" where
  "py_bool s = (s \<noteq> [])"

text \<open>\<^verbatim>\<open>d[k] = v\<close>: an existing key keeps its place, a new key goes last.\<close>

fun dict_set :: "string \<Rightarrow> jvalue \<Rightarrow> dict \<Rightarrow> dict" where
  "dict_set k v [] = [(k, v)]"
| "dict_set k v ((k', v') # d) = (if k' = k then (k, v) # d else (k', v') # dict_set k v d)"

definition dict_get :: "string \<Rightarrow> dict \<Rightarrow> jvalue option" where
  "dict_get k d = map_of d k"

text \<open>\<^verbatim>\<open>d[k].append(x)\<close>.\<close>

definition dict_append :: "string \<Rightarrow> real \<Rightarrow> dict \<Rightarrow> error + dict" where
  "dict_append k x d =
     (case dict_get k d of
        None \<Rightarrow> Inl KeyError
      | Some (Text t) \<Rightarrow> Inl AttributeError
      | Some (Samples xs) \<Rightarrow> Inr (dict_set k (Samples (xs @ [x])) d))"

text \<open>\<^verbatim>\<open>sum(m) / len(m)\<close>: \<^verbatim>\<open>sum\<close> of an empty sequence is 0, and dividing by a zero
  length raises.\<close>

definition py_mean :: "jvalue \<Rightarrow> error + real" where
  "py_mean m =
     (case m of
        Samples xs \<Rightarrow>
          if length xs = 0 then Inl ZeroDivisionError
          else Inr (sum_list xs / real (length xs))
      | Text t \<Rightarrow> if length t = 0 then Inl ZeroDivisionError else Inl TypeError)"

definition andthen :: "outcome \<Rightarrow> (state \<Rightarrow> outcome) \<Rightarrow> outcome" where
  "andthen r f = (case r of (None, s) \<Rightarrow> f s | (Some e, s) \<Rightarrow> (Some e, s))"

definition log_event :: "event \<Rightarrow> state \<Rightarrow> state" where
  "log_event e s = s\<lparr>trace := trace s @ [e]\<rparr>"

text \<open>\<^verbatim>\<open>time.time()\<close>: the next reading of the clock.\<close>

definition time_time :: "world \<Rightarrow> state \<Rightarrow> real \<times> state" where
  "time_time w s = (time_at w (ticks s), s\<lparr>ticks := ticks s + 1\<rparr>)"

text \<open>\<^verbatim>\<open>os.environ[k] = v\<close> and \<^verbatim>\<open>os.environ.get(k, default)\<close>.\<close>

definition setenv :: "string \<Rightarrow> string \<Rightarrow> state \<Rightarrow> state" where
  "setenv k v s = log_event (SetEnv k v) (s\<lparr>environ := (environ s)(k \<mapsto> v)\<rparr>)"

definition environ_get :: "string \<Rightarrow> string \<Rightarrow> state \<Rightarrow> string" where
  "environ_get k dflt s = (case environ s k of None \<Rightarrow> dflt | Some v \<Rightarrow> v)"

text \<open>\<^verbatim>\<open>subprocess.run(argv, capture_output=..., text=...)\<close> with the default
  \<^verbatim>\<open>check=False\<close>. A program that cannot be started raises, and nothing has run. Otherwise
  the child runs to its end whatever its exit status, which is only stored in the value
  returned. Without capture the child inherits the harness's streams and its output is
  shown. With capture the output goes into the value returned; with \<^verbatim>\<open>text=True\<close> it is
  decoded first, strictly, and bytes the decoder rejects raise.\<close>

definition subprocess_run ::
  "string list \<Rightarrow> bool \<Rightarrow> bool \<Rightarrow> world \<Rightarrow> state \<Rightarrow> (error + completed_process) \<times> state" where
  "subprocess_run argv capture_output text w s =
     (let c = child_at w (spawned s) in
      if \<not> starts c then (Inl FileNotFoundError, s)
      else
        (let s1 = log_event (Spawn argv capture_output) (s\<lparr>spawned := spawned s + 1\<rparr>) in
         if \<not> capture_output
         then (Inr \<lparr>returncode = exit_status c, stdout = None, stderr = None\<rparr>,
               log_event (Inherited (writes_out c) (writes_err c)) s1)
         else if \<not> text
         then (Inr \<lparr>returncode = exit_status c, stdout = Some (writes_out c),
                    stderr = Some (writes_err c)\<rparr>, s1)
         else if decode w (writes_out c) = None \<or> decode w (writes_err c) = None
         then (Inl UnicodeDecodeError, s1)
         else (Inr \<lparr>returncode = exit_status c, stdout = decode w (writes_out c),
                    stderr = decode w (writes_err c)\<rparr>, s1)))"

text \<open>A function without \<^verbatim>\<open>return\<close> that ends with a call: the value of the call is
  dropped, an exception of the call goes on.\<close>

definition discard :: "(error + 'a) \<times> state \<Rightarrow> outcome" where
  "discard r = (case r of (Inl e, s) \<Rightarrow> (Some e, s) | (Inr x, s) \<Rightarrow> (None, s))"

subsection \<open>The three helpers\<close>

definition vacuum_argv :: "string list" where
  "vacuum_argv = [''sqlite3'', ''bench.db'', [CHR 0x22] @ ''VACUUM;'' @ [CHR 0x22]]"

definition solve_argv :: "string \<Rightarrow> string list" where
  "solve_argv variant =
     [''cargo'', ''run'', ''--'', ''build'', ''zero-by'', ''--variant='' @ variant,
      ''--mode=overwrite'']"

definition flamegraph_argv :: "string \<Rightarrow> string list" where
  "flamegraph_argv variant =
     [''cargo'', ''flamegraph'', ''--root=-E'', ''--bin'', ''nova'', ''--'', ''build'',
      ''zero-by'', ''--variant='' @ variant, ''--mode=overwrite'']"

text \<open>The two solver-side helpers capture and decode (\<^verbatim>\<open>capture_output=True, text=True\<close>);
  \<^verbatim>\<open>flamegraph\<close> passes neither. Each helper drops the value of \<^verbatim>\<open>subprocess.run\<close>.\<close>

definition init_bench_database :: "world \<Rightarrow> state \<Rightarrow> outcome" where
  "init_bench_database w s = discard (subprocess_run vacuum_argv True True w s)"

definition solve_zero_by :: "string \<Rightarrow> world \<Rightarrow> state \<Rightarrow> outcome" where
  "solve_zero_by variant w s = discard (subprocess_run (solve_argv variant) True True w s)"

definition flamegraph :: "string \<Rightarrow> world \<Rightarrow> state \<Rightarrow> outcome" where
  "flamegraph variant w s = discard (subprocess_run (flamegraph_argv variant) False False w s)"

subsection \<open>Command line declarations\<close>

text \<open>\<^verbatim>\<open>--note\<close>: \<^verbatim>\<open>type=str\<close>, default \<^verbatim>\<open>"No note."\<close>; \<^verbatim>\<open>--samples\<close>: \<^verbatim>\<open>type=int\<close>, default 3;
  \<^verbatim>\<open>--profile\<close>: \<^verbatim>\<open>type=bool\<close>, default \<^verbatim>\<open>False\<close>. A default that is not a string is used
  as it is.\<close>

definition parse_args :: "raw_args \<Rightarrow> args" where
  "parse_args r =
     \<lparr>note_text = (case note_arg r of None \<Rightarrow> ''No note.'' | Some t \<Rightarrow> t),
      samples = (case samples_arg r of None \<Rightarrow> 3 | Some n \<Rightarrow> n),
      profile = (case profile_arg r of None \<Rightarrow> False | Some t \<Rightarrow> py_bool t)\<rparr>"

subsection \<open>Declarations and the sampling loops\<close>

definition variants :: "string list" where
  "variants = [''2-10000-1-2'', ''2-10000-3-5-7-11'', ''4-10000-1-2'', ''4-10000-3-5-7-11'']"

definition heavy_variant :: string where
  "heavy_variant = ''2-100000-1-2''"

text \<open>One pass of the body of \<^verbatim>\<open>for _ in range(samples)\<close> (lines 113 to 118): read the
  clock, run the solver, read the clock again, append the difference.\<close>

definition sample_once :: "string \<Rightarrow> world \<Rightarrow> state \<Rightarrow> outcome" where
  "sample_once v w s =
     (let (start, s1) = time_time w s
      in andthen (solve_zero_by v w s1)
           (\<lambda>s2. let (stop, s3) = time_time w s2;
                     elapsed = stop - start
                 in case dict_append v elapsed (measurements s3) of
                      Inl e \<Rightarrow> (Some e, s3)
                    | Inr d \<Rightarrow> (None, s3\<lparr>measurements := d\<rparr>)))"

fun sample_loop :: "nat \<Rightarrow> string \<Rightarrow> world \<Rightarrow> state \<Rightarrow> outcome" where
  "sample_loop 0 v w s = (None, s)"
| "sample_loop (Suc k) v w s = andthen (sample_once v w s) (sample_loop k v w)"

text \<open>\<^verbatim>\<open>m = measurements[v]\<close> and the print of the mean.\<close>

definition print_mean :: "string \<Rightarrow> state \<Rightarrow> outcome" where
  "print_mean v s =
     (case dict_get v (measurements s) of
        None \<Rightarrow> (Some KeyError, s)
      | Some m \<Rightarrow>
          (case py_mean m of
             Inl e \<Rightarrow> (Some e, s)
           | Inr x \<Rightarrow> (None, log_event (Print (MeanLine v x)) s)))"

text \<open>The body of \<^verbatim>\<open>for v in variants\<close> (lines 111 to 121): the variant's sequence is set to
  empty, the repetitions run, the mean is printed. \<^verbatim>\<open>range(samples)\<close> is empty when
  \<^verbatim>\<open>samples\<close> is not positive.\<close>

definition bench_variant :: "int \<Rightarrow> string \<Rightarrow> world \<Rightarrow> state \<Rightarrow> outcome" where
  "bench_variant n v w s =
     andthen (sample_loop (nat n) v w (s\<lparr>measurements := dict_set v (Samples []) (measurements s)\<rparr>))
       (print_mean v)"

fun variant_loop :: "int \<Rightarrow> string list \<Rightarrow> world \<Rightarrow> state \<Rightarrow> outcome" where
  "variant_loop n [] w s = (None, s)"
| "variant_loop n (v # vs) w s = andthen (bench_variant n v w s) (variant_loop n vs w)"

subsection \<open>The timestamp\<close>

text \<open>The decimal digit of the units of a number, a number in decimal without padding,
  and the two lowest digits of a number.\<close>

definition digit :: "nat \<Rightarrow> char" where
  "digit n = ''0123456789'' ! (n mod 10)"

fun decimal :: "nat \<Rightarrow> string" where
  "decimal n = (if n < 10 then [digit n] else decimal (n div 10) @ [digit n])"

declare decimal.simps [simp del]

definition pad2 :: "nat \<Rightarrow> string" where
  "pad2 n = [digit (n div 10), digit n]"

text \<open>\<^verbatim>\<open>now.strftime("%Y-%m-%d_%H-%M-%S")\<close> as the C library of Linux prints it: the year
  in decimal with no padding (four digits from the year 1000 on, fewer before), every other
  field zero-padded to two digits.\<close>

definition strftime :: "datetime \<Rightarrow> string" where
  "strftime d =
     decimal (dt_year d) @ ''-'' @ pad2 (dt_month d) @ ''-'' @ pad2 (dt_day d) @ ''_'' @
     pad2 (dt_hour d) @ ''-'' @ pad2 (dt_minute d) @ ''-'' @ pad2 (dt_second d)"

definition output_path :: "datetime \<Rightarrow> string" where
  "output_path d = ''dev/bench/'' @ strftime d @ ''.json''"

subsection \<open>The script body\<close>

text \<open>The logging: restore the variable, take the timestamp, open the output file (which
  may fail), put the note into the dictionary and dump it. The file is modelled by the
  dictionary it holds; its serialisation as JSON text is not modelled.\<close>

definition logging :: "args \<Rightarrow> string \<Rightarrow> world \<Rightarrow> state \<Rightarrow> outcome" where
  "logging a db w s =
     (let s1 = setenv ''DATABASE'' db s;
          path = output_path (now_at w)
      in if open_fails w then (Some OSError, s1)
         else
           (let s2 = s1\<lparr>measurements := dict_set ''note'' (Text (note_text a)) (measurements s1)\<rparr>
            in (None, log_event (Dump path (measurements s2))
                        (s2\<lparr>files := (files s2)(path \<mapsto> measurements s2)\<rparr>))))"

text \<open>The script body after the parsing of the command line: the acknowledgement, the
  declarations, the optional flamegraph, the benchmarks and the logging, in the order of
  the script.\<close>

definition bench_script :: "args \<Rightarrow> world \<Rightarrow> state \<Rightarrow> outcome" where
  "bench_script a w s0 =
     (let s1 = log_event (Print (Ack (note_text a) (samples a) (profile a))) s0;
          db = environ_get ''DATABASE'' ''solutions.db'' s1;
          s2 = setenv ''DATABASE'' ''bench.db'' s1
      in andthen (if profile a then flamegraph heavy_variant w s2 else (None, s2))
           (\<lambda>s3. andthen (variant_loop (samples a) variants w (s3\<lparr>measurements := []\<rparr>))
                   (logging a db w)))"

section \<open>Calendar arithmetic of the timestamp\<close>













section \<open>Notions used to state the properties\<close>

text \<open>The arithmetic mean of a sequence, computed on its own: sum divided by count.\<close>

definition mean :: "real list \<Rightarrow> real" where
  "mean xs = sum_list xs / real (length xs)"

text \<open>Counted from clock reading \<open>t\<close>, repetition \<open>j\<close> reads the clock at \<open>t + 2 * j\<close> before
  the solver runs and at \<open>t + 2 * j + 1\<close> after it; \<open>samples_from w t k\<close> lists the elapsed
  times of \<open>k\<close> consecutive repetitions in the order they run.\<close>

definition elapsed_from :: "world \<Rightarrow> nat \<Rightarrow> nat \<Rightarrow> real" where
  "elapsed_from w t j = time_at w (t + 2 * j + 1) - time_at w (t + 2 * j)"

definition samples_from :: "world \<Rightarrow> nat \<Rightarrow> nat \<Rightarrow> real list" where
  "samples_from w t k = map (elapsed_from w t) [0..<k]"

text \<open>What sampling the variants \<open>vs\<close> with \<open>k\<close> repetitions each is expected to log, and the
  dictionary it is expected to build.\<close>

fun sampling_events :: "world \<Rightarrow> nat \<Rightarrow> nat \<Rightarrow> string list \<Rightarrow> event list" where
  "sampling_events w t k [] = []"
| "sampling_events w t k (v # vs) =
     replicate k (Spawn (solve_argv v) True) @ [Print (MeanLine v (mean (samples_from w t k)))] @
     sampling_events w (t + 2 * k) k vs"

fun sampled :: "world \<Rightarrow> nat \<Rightarrow> nat \<Rightarrow> string list \<Rightarrow> dict \<Rightarrow> dict" where
  "sampled w t k [] d = d"
| "sampled w t k (v # vs) d = sampled w (t + 2 * k) k vs (dict_set v (Samples (samples_from w t k)) d)"

text \<open>What the script logs before the benchmarks: the acknowledgement, the override of
  \<^verbatim>\<open>DATABASE\<close> and, when profiling, the flamegraph child with its uncaptured output.\<close>

definition setup_events :: "args \<Rightarrow> world \<Rightarrow> state \<Rightarrow> event list" where
  "setup_events a w s =
     [Print (Ack (note_text a) (samples a) (profile a)), SetEnv ''DATABASE'' ''bench.db''] @
     (if profile a
      then [Spawn (flamegraph_argv heavy_variant) False,
            Inherited (writes_out (child_at w (spawned s))) (writes_err (child_at w (spawned s)))]
      else [])"

text \<open>The child processes of a trace, in order: command line and whether captured; and the
  child output shown on the harness's own streams.\<close>

fun spawns_of :: "event list \<Rightarrow> (string list \<times> bool) list" where
  "spawns_of [] = []"
| "spawns_of (Spawn argv c # es) = (argv, c) # spawns_of es"
| "spawns_of (e # es) = spawns_of es"

definition vacuum_children :: "event list \<Rightarrow> (string list \<times> bool) list" where
  "vacuum_children tr = filter (\<lambda>p. fst p = vacuum_argv) (spawns_of tr)"


text \<open>The sample sequence a state holds for a variant.\<close>

definition recorded :: "string \<Rightarrow> state \<Rightarrow> real list" where
  "recorded v s = (case dict_get v (measurements s) of Some (Samples xs) \<Rightarrow> xs | _ \<Rightarrow> [])"

text \<open>The state expected when the benchmarks are done and logging starts.\<close>

definition sampled_state :: "args \<Rightarrow> world \<Rightarrow> state \<Rightarrow> state" where
  "sampled_state a w s =
     s\<lparr>environ := (environ s)(''DATABASE'' \<mapsto> ''bench.db''),
        trace := trace s @ setup_events a w s @ sampling_events w (ticks s) (nat (samples a)) variants,
        ticks := ticks s + 2 * nat (samples a) * length variants,
        spawned := spawned s + (if profile a then 1 else 0) + nat (samples a) * length variants,
        measurements := sampled w (ticks s) (nat (samples a)) variants []\<rparr>"

text \<open>A solver child is served when its program starts and what it writes decodes. The
  children of a run are served when the flamegraph child, if there is one, starts (its
  output is not decoded) and every solver child after it is served.\<close>

definition solver_ok :: "world \<Rightarrow> nat \<Rightarrow> bool" where
  "solver_ok w k \<longleftrightarrow>
     starts (child_at w k) \<and> decode w (writes_out (child_at w k)) \<noteq> None \<and>
     decode w (writes_err (child_at w k)) \<noteq> None"

definition first_solver :: "args \<Rightarrow> state \<Rightarrow> nat" where
  "first_solver a s = spawned s + (if profile a then 1 else 0)"

definition children_ok :: "args \<Rightarrow> world \<Rightarrow> state \<Rightarrow> bool" where
  "children_ok a w s \<longleftrightarrow>
     (profile a \<longrightarrow> starts (child_at w (spawned s))) \<and>
     list_all (\<lambda>i. solver_ok w (first_solver a s + i)) [0..<nat (samples a) * length variants]"

text \<open>The state after the acknowledgement and the override of \<^verbatim>\<open>DATABASE\<close>, and the state
  after the optional flamegraph, when its child starts.\<close>

definition prepared :: "args \<Rightarrow> state \<Rightarrow> state" where
  "prepared a s =
     setenv ''DATABASE'' ''bench.db''
       (log_event (Print (Ack (note_text a) (samples a) (profile a))) s)"

definition profiled :: "args \<Rightarrow> world \<Rightarrow> state \<Rightarrow> state" where
  "profiled a w s =
     (prepared a s)\<lparr>trace := trace s @ setup_events a w s, spawned := first_solver a s\<rparr>"

text \<open>The same world with other exit statuses for its children.\<close>

definition with_exit_status :: "(nat \<Rightarrow> int) \<Rightarrow> world \<Rightarrow> world" where
  "with_exit_status st w = w\<lparr>child_at := (\<lambda>k. (child_at w k)\<lparr>exit_status := st k\<rparr>)\<rparr>"

subsection \<open>Concrete inputs\<close>

text \<open>A world whose clock reads 0, 1, 4, 9, ... and whose children succeed silently, at
  UTC; the same world with every child crashing after a message; a world whose decoder
  rejects the byte \<^verbatim>\<open>0xFF\<close> and whose children crash after writing that byte; a fresh
  process state over a given environment; the arguments of an invocation without flags.\<close>

definition demo_world :: world where
  "demo_world =
     \<lparr>time_at = (\<lambda>k. real (k * k)),
      child_at = (\<lambda>k. \<lparr>starts = True, exit_status = 0, writes_out = [], writes_err = []\<rparr>),
      decode = Some,
      now_at = \<lparr>dt_year = 2026, dt_month = 11, dt_day = 3, dt_hour = 18, dt_minute = 59,
                 dt_second = 0, dt_microsecond = 0\<rparr>,
      instant = 1793732340000000,
      utc_offset = 0,
      open_fails = False\<rparr>"



definition initial_state :: "(string \<rightharpoonup> string) \<Rightarrow> state" where
  "initial_state env =
     \<lparr>environ = env, files = Map.empty, trace = [], ticks = 0, spawned = 0, measurements = []\<rparr>"

definition default_args :: args where
  "default_args = parse_args \<lparr>note_arg = None, samples_arg = None, profile_arg = None\<rparr>"





section \<open>What a run does\<close>

subsection \<open>The dictionary, the loops and the script body\<close>

lemma dict_get_set_same: "dict_get k (dict_set k v d) = Some v"
  by (induction d) (auto simp: dict_get_def)

lemma dict_get_set_other: "k' \<noteq> k \<Longrightarrow> dict_get k' (dict_set k v d) = dict_get k' d"
  by (induction d) (auto simp: dict_get_def)

lemma dict_set_twice: "dict_set k v (dict_set k v' d) = dict_set k v d"
  by (induction d) auto

lemma dict_set_get: "dict_get k d = Some v \<Longrightarrow> dict_set k v d = d"
  by (induction d) (auto simp: dict_get_def)

lemma all_less_Suc_shift: "(\<forall>i<Suc k. P i) \<longleftrightarrow> P 0 \<and> (\<forall>i<k. P (Suc i))"
  by (auto simp: less_Suc_eq_0_disj)

lemma all_less_add_shift:
  fixes k m :: nat
  shows "(\<forall>i<k + m. P i) \<longleftrightarrow> (\<forall>i<k. P i) \<and> (\<forall>i<m. P (k + i))"
proof
  assume a: "\<forall>i<k + m. P i"
  then show "(\<forall>i<k. P i) \<and> (\<forall>i<m. P (k + i))" by simp
next
  assume b: "(\<forall>i<k. P i) \<and> (\<forall>i<m. P (k + i))"
  show "\<forall>i<k + m. P i"
  proof (intro allI impI)
    fix i assume "i < k + m"
    show "P i"
    proof (cases "i < k")
      case True
      with b show ?thesis by simp
    next
      case False
      then have "i = k + (i - k)" and "i - k < m" using \<open>i < k + m\<close> by simp_all
      with b show ?thesis by metis
    qed
  qed
qed

lemma solve_zero_by_ok:
  assumes "solver_ok w (spawned s)"
  shows "solve_zero_by v w s =
    (None, s\<lparr>spawned := spawned s + 1, trace := trace s @ [Spawn (solve_argv v) True]\<rparr>)"
  using assms
  by (auto simp: solve_zero_by_def discard_def subprocess_run_def solver_ok_def log_event_def
      Let_def)

lemma solve_zero_by_fails:
  assumes "\<not> solver_ok w (spawned s)"
  shows "fst (solve_zero_by v w s) =
    Some (if starts (child_at w (spawned s)) then UnicodeDecodeError else FileNotFoundError)"
  using assms
  by (auto simp: solve_zero_by_def discard_def subprocess_run_def solver_ok_def log_event_def
      Let_def)

lemma sample_once_ok:
  assumes "solver_ok w (spawned s)" and "dict_get v (measurements s) = Some (Samples xs)"
  shows "sample_once v w s =
    (None, s\<lparr>ticks := ticks s + 2, spawned := spawned s + 1,
              trace := trace s @ [Spawn (solve_argv v) True],
              measurements := dict_set v (Samples (xs @ [elapsed_from w (ticks s) 0])) (measurements s)\<rparr>)"
proof -
  let ?s1 = "s\<lparr>ticks := Suc (ticks s)\<rparr>"
  have ok1: "solver_ok w (spawned ?s1)" using assms(1) by simp
  show ?thesis
    using assms(2)
    by (simp add: sample_once_def time_time_def solve_zero_by_ok [OF ok1] andthen_def
        dict_append_def elapsed_from_def Let_def)
qed

lemma sample_once_fails:
  assumes "\<not> solver_ok w (spawned s)"
  shows "fst (sample_once v w s) \<noteq> None"
proof -
  let ?s1 = "s\<lparr>ticks := Suc (ticks s)\<rparr>"
  have bad: "\<not> solver_ok w (spawned ?s1)" using assms by simp
  obtain e s' where r: "solve_zero_by v w ?s1 = (Some e, s')"
    using solve_zero_by_fails [OF bad, of v] by (cases "solve_zero_by v w ?s1") auto
  show ?thesis
    by (simp add: sample_once_def time_time_def r andthen_def)
qed

lemma samples_from_Suc:
  "samples_from w t (Suc k) = elapsed_from w t 0 # samples_from w (t + 2) k"
  by (simp add: samples_from_def map_upt_Suc elapsed_from_def del: upt_Suc)

lemma sample_loop_ok:
  "\<forall>i<k. solver_ok w (spawned s + i) \<Longrightarrow>
   dict_get v (measurements s) = Some (Samples xs) \<Longrightarrow>
   sample_loop k v w s =
    (None, s\<lparr>ticks := ticks s + 2 * k, spawned := spawned s + k,
              trace := trace s @ replicate k (Spawn (solve_argv v) True),
              measurements := dict_set v (Samples (xs @ samples_from w (ticks s) k)) (measurements s)\<rparr>)"
proof (induction k arbitrary: s xs)
  case 0
  then show ?case by (simp add: samples_from_def dict_set_get)
next
  case (Suc k)
  let ?s1 = "s\<lparr>ticks := ticks s + 2, spawned := spawned s + 1,
              trace := trace s @ [Spawn (solve_argv v) True],
              measurements := dict_set v (Samples (xs @ [elapsed_from w (ticks s) 0])) (measurements s)\<rparr>"
  from Suc.prems(1) have ok0: "solver_ok w (spawned s)"
    and rest: "\<forall>i<k. solver_ok w (spawned ?s1 + i)"
    by (simp_all add: all_less_Suc_shift)
  have get1: "dict_get v (measurements ?s1) = Some (Samples (xs @ [elapsed_from w (ticks s) 0]))"
    by (simp add: dict_get_set_same)
  have "sample_loop (Suc k) v w s = sample_loop k v w ?s1"
    by (simp only: sample_loop.simps sample_once_ok [OF ok0 Suc.prems(2)] andthen_def
        prod.case option.case)
  also note Suc.IH [OF rest get1]
  finally show ?case
    by (simp add: dict_set_twice samples_from_Suc replicate_app_Cons_same)
qed

lemma sample_loop_None_iff:
  "dict_get v (measurements s) = Some (Samples xs) \<Longrightarrow>
   fst (sample_loop k v w s) = None \<longleftrightarrow> (\<forall>i<k. solver_ok w (spawned s + i))"
proof (induction k arbitrary: s xs)
  case 0
  then show ?case by simp
next
  case (Suc k)
  show ?case
  proof (cases "solver_ok w (spawned s)")
    case True
    let ?s1 = "s\<lparr>ticks := ticks s + 2, spawned := spawned s + 1,
              trace := trace s @ [Spawn (solve_argv v) True],
              measurements := dict_set v (Samples (xs @ [elapsed_from w (ticks s) 0])) (measurements s)\<rparr>"
    have get1: "dict_get v (measurements ?s1) = Some (Samples (xs @ [elapsed_from w (ticks s) 0]))"
      by (simp add: dict_get_set_same)
    have "sample_loop (Suc k) v w s = sample_loop k v w ?s1"
      by (simp only: sample_loop.simps sample_once_ok [OF True Suc.prems] andthen_def
          prod.case option.case)
    with Suc.IH [OF get1] True show ?thesis
      by (simp add: all_less_Suc_shift)
  next
    case False
    from sample_once_fails [OF False, of v] obtain e s' where "sample_once v w s = (Some e, s')"
      by (cases "sample_once v w s") auto
    with False show ?thesis
      by (auto simp: andthen_def all_less_Suc_shift)
  qed
qed

lemma andthen_None: "andthen (None, s) f = f s"
  by (simp add: andthen_def)

lemma andthen_Some: "andthen (Some e, s) f = (Some e, s)"
  by (simp add: andthen_def)

lemma fst_andthen_error: "fst r \<noteq> None \<Longrightarrow> fst (andthen r f) \<noteq> None"
  by (cases r) (auto simp: andthen_def)

lemma print_mean_Samples:
  "dict_get v (measurements s) = Some (Samples xs) \<Longrightarrow> xs \<noteq> [] \<Longrightarrow>
   print_mean v s = (None, s\<lparr>trace := trace s @ [Print (MeanLine v (mean xs))]\<rparr>)"
  by (simp add: print_mean_def py_mean_def mean_def log_event_def)

lemma print_mean_empty:
  "dict_get v (measurements s) = Some (Samples []) \<Longrightarrow>
   print_mean v s = (Some ZeroDivisionError, s)"
  by (simp add: print_mean_def py_mean_def)

lemma bench_variant_pos:
  assumes "0 < n" and "\<forall>i<nat n. solver_ok w (spawned s + i)"
  shows "bench_variant n v w s =
    (None, s\<lparr>ticks := ticks s + 2 * nat n, spawned := spawned s + nat n,
              trace := trace s @ replicate (nat n) (Spawn (solve_argv v) True) @
                       [Print (MeanLine v (mean (samples_from w (ticks s) (nat n))))],
              measurements := dict_set v (Samples (samples_from w (ticks s) (nat n))) (measurements s)\<rparr>)"
proof -
  let ?s0 = "s\<lparr>measurements := dict_set v (Samples []) (measurements s)\<rparr>"
  have get0: "dict_get v (measurements ?s0) = Some (Samples [])"
    by (simp add: dict_get_set_same)
  have ok0: "\<forall>i<nat n. solver_ok w (spawned ?s0 + i)"
    using assms(2) by simp
  have ne: "samples_from w (ticks s) (nat n) \<noteq> []"
    using assms(1) by (simp add: samples_from_def)
  show ?thesis
    using ne
    by (simp add: bench_variant_def sample_loop_ok [OF ok0 get0] andthen_def dict_set_twice
        print_mean_Samples dict_get_set_same)
qed

lemma bench_variant_nonpos:
  assumes "n \<le> 0"
  shows "bench_variant n v w s =
    (Some ZeroDivisionError, s\<lparr>measurements := dict_set v (Samples []) (measurements s)\<rparr>)"
  using assms
  by (simp add: bench_variant_def andthen_def print_mean_empty dict_get_set_same)

lemma bench_variant_None_iff:
  "fst (bench_variant n v w s) = None \<longleftrightarrow> 0 < n \<and> (\<forall>i<nat n. solver_ok w (spawned s + i))"
proof (cases "0 < n")
  case False
  then have "n \<le> 0" by simp
  from bench_variant_nonpos [OF this] False show ?thesis by simp
next
  case True
  show ?thesis
  proof (cases "\<forall>i<nat n. solver_ok w (spawned s + i)")
    case ok: True
    from bench_variant_pos [OF True ok] True ok show ?thesis by simp
  next
    case bad: False
    let ?s0 = "s\<lparr>measurements := dict_set v (Samples []) (measurements s)\<rparr>"
    have get0: "dict_get v (measurements ?s0) = Some (Samples [])"
      by (simp add: dict_get_set_same)
    have "fst (sample_loop (nat n) v w ?s0) \<noteq> None"
      using bad sample_loop_None_iff [OF get0, of "nat n" w] by simp
    then have "fst (bench_variant n v w s) \<noteq> None"
      unfolding bench_variant_def by (rule fst_andthen_error)
    with bad show ?thesis by auto
  qed
qed

lemma variant_loop_pos:
  "0 < n \<Longrightarrow> \<forall>i<nat n * length vs. solver_ok w (spawned s + i) \<Longrightarrow>
   variant_loop n vs w s =
    (None, s\<lparr>ticks := ticks s + 2 * nat n * length vs, spawned := spawned s + nat n * length vs,
              trace := trace s @ sampling_events w (ticks s) (nat n) vs,
              measurements := sampled w (ticks s) (nat n) vs (measurements s)\<rparr>)"
proof (induction vs arbitrary: s)
  case Nil
  then show ?case by simp
next
  case (Cons v vs)
  from Cons.prems(2) have "\<forall>i<nat n + nat n * length vs. solver_ok w (spawned s + i)"
    by simp
  then have first: "\<forall>i<nat n. solver_ok w (spawned s + i)"
    and rest: "\<forall>i<nat n * length vs. solver_ok w (spawned s + (nat n + i))"
    unfolding all_less_add_shift by simp_all
  let ?s1 = "s\<lparr>ticks := ticks s + 2 * nat n, spawned := spawned s + nat n,
              trace := trace s @ replicate (nat n) (Spawn (solve_argv v) True) @
                       [Print (MeanLine v (mean (samples_from w (ticks s) (nat n))))],
              measurements := dict_set v (Samples (samples_from w (ticks s) (nat n))) (measurements s)\<rparr>"
  have rest1: "\<forall>i<nat n * length vs. solver_ok w (spawned ?s1 + i)"
    using rest by (simp add: add.assoc)
  have "variant_loop n (v # vs) w s = variant_loop n vs w ?s1"
    by (simp only: variant_loop.simps bench_variant_pos [OF Cons.prems(1) first] andthen_None)
  also note Cons.IH [OF Cons.prems(1) rest1]
  finally show ?case
    by (simp add: algebra_simps)
qed

lemma variant_loop_None_iff:
  "0 < n \<Longrightarrow>
   fst (variant_loop n vs w s) = None \<longleftrightarrow> (\<forall>i<nat n * length vs. solver_ok w (spawned s + i))"
proof (induction vs arbitrary: s)
  case Nil
  then show ?case by simp
next
  case (Cons v vs)
  have split: "(\<forall>i<nat n * length (v # vs). solver_ok w (spawned s + i)) \<longleftrightarrow>
      (\<forall>i<nat n. solver_ok w (spawned s + i)) \<and>
      (\<forall>i<nat n * length vs. solver_ok w (spawned s + (nat n + i)))"
    using all_less_add_shift [of "nat n" "nat n * length vs" "\<lambda>i. solver_ok w (spawned s + i)"]
    by simp
  show ?case
  proof (cases "\<forall>i<nat n. solver_ok w (spawned s + i)")
    case True
    let ?s1 = "s\<lparr>ticks := ticks s + 2 * nat n, spawned := spawned s + nat n,
              trace := trace s @ replicate (nat n) (Spawn (solve_argv v) True) @
                       [Print (MeanLine v (mean (samples_from w (ticks s) (nat n))))],
              measurements := dict_set v (Samples (samples_from w (ticks s) (nat n))) (measurements s)\<rparr>"
    have "variant_loop n (v # vs) w s = variant_loop n vs w ?s1"
      by (simp only: variant_loop.simps bench_variant_pos [OF Cons.prems True] andthen_None)
    with Cons.IH [OF Cons.prems, of ?s1] True show ?thesis
      unfolding split by (simp add: add.assoc)
  next
    case False
    then have "fst (bench_variant n v w s) \<noteq> None"
      by (simp add: bench_variant_None_iff)
    then have "fst (variant_loop n (v # vs) w s) \<noteq> None"
      unfolding variant_loop.simps by (rule fst_andthen_error)
    with False show ?thesis
      unfolding split by auto
  qed
qed

lemma flamegraph_ok:
  assumes "starts (child_at w (spawned s))"
  shows "flamegraph v w s =
    (None, s\<lparr>spawned := spawned s + 1,
              trace := trace s @ [Spawn (flamegraph_argv v) False,
                Inherited (writes_out (child_at w (spawned s))) (writes_err (child_at w (spawned s)))]\<rparr>)"
  using assms
  by (simp add: flamegraph_def discard_def subprocess_run_def log_event_def Let_def)

lemma flamegraph_fails:
  assumes "\<not> starts (child_at w (spawned s))"
  shows "flamegraph v w s = (Some FileNotFoundError, s)"
  using assms
  by (simp add: flamegraph_def discard_def subprocess_run_def Let_def)

lemma children_ok_iff:
  "children_ok a w s \<longleftrightarrow>
     (profile a \<longrightarrow> starts (child_at w (spawned s))) \<and>
     (\<forall>i<nat (samples a) * length variants. solver_ok w (first_solver a s + i))"
  by (auto simp: children_ok_def list_all_iff)

lemma spawned_prepared: "spawned (prepared a s) = spawned s"
  by (simp add: prepared_def setenv_def log_event_def)

lemma bench_script_unfold:
  "bench_script a w s =
     andthen (if profile a then flamegraph heavy_variant w (prepared a s) else (None, prepared a s))
       (\<lambda>s3. andthen (variant_loop (samples a) variants w (s3\<lparr>measurements := []\<rparr>))
               (logging a (environ_get ''DATABASE'' ''solutions.db'' s) w))"
  by (simp add: bench_script_def Let_def prepared_def environ_get_def log_event_def)

lemma setup_ok:
  assumes "profile a \<longrightarrow> starts (child_at w (spawned s))"
  shows "(if profile a then flamegraph heavy_variant w (prepared a s) else (None, prepared a s)) =
           (None, profiled a w s)"
proof (cases "profile a")
  case True
  with assms have "starts (child_at w (spawned (prepared a s)))"
    by (simp add: spawned_prepared)
  from flamegraph_ok [OF this] True show ?thesis
    by (cases s)
      (simp add: profiled_def prepared_def setup_events_def first_solver_def setenv_def
        log_event_def)
next
  case False
  then show ?thesis
    by (cases s)
      (simp add: profiled_def prepared_def setup_events_def first_solver_def setenv_def
        log_event_def)
qed

lemma setup_fails:
  assumes "profile a" and "\<not> starts (child_at w (spawned s))"
  shows "bench_script a w s = (Some FileNotFoundError, prepared a s)"
proof -
  from assms(2) have "\<not> starts (child_at w (spawned (prepared a s)))"
    by (simp add: spawned_prepared)
  from flamegraph_fails [OF this] assms(1) show ?thesis
    by (simp add: bench_script_unfold andthen_Some)
qed

lemma bench_script_started:
  assumes "profile a \<longrightarrow> starts (child_at w (spawned s))"
  shows "bench_script a w s =
     andthen (variant_loop (samples a) variants w ((profiled a w s)\<lparr>measurements := []\<rparr>))
       (logging a (environ_get ''DATABASE'' ''solutions.db'' s) w)"
  by (simp only: bench_script_unfold setup_ok [OF assms] andthen_None)

lemma spawned_profiled: "spawned ((profiled a w s)\<lparr>measurements := []\<rparr>) = first_solver a s"
  by (simp add: profiled_def)

lemma bench_script_pos:
  assumes "0 < samples a" and "children_ok a w s"
  shows "bench_script a w s =
           logging a (environ_get ''DATABASE'' ''solutions.db'' s) w (sampled_state a w s)"
proof -
  from assms(2) have st: "profile a \<longrightarrow> starts (child_at w (spawned s))"
    and ok: "\<forall>i<nat (samples a) * length variants.
      solver_ok w (spawned ((profiled a w s)\<lparr>measurements := []\<rparr>) + i)"
    by (simp_all add: children_ok_iff spawned_profiled)
  have "bench_script a w s =
      logging a (environ_get ''DATABASE'' ''solutions.db'' s) w
        (((profiled a w s)\<lparr>measurements := []\<rparr>)
          \<lparr>ticks := ticks ((profiled a w s)\<lparr>measurements := []\<rparr>) +
              2 * nat (samples a) * length variants,
           spawned := spawned ((profiled a w s)\<lparr>measurements := []\<rparr>) +
              nat (samples a) * length variants,
           trace := trace ((profiled a w s)\<lparr>measurements := []\<rparr>) @
              sampling_events w (ticks ((profiled a w s)\<lparr>measurements := []\<rparr>))
                (nat (samples a)) variants,
           measurements := sampled w (ticks ((profiled a w s)\<lparr>measurements := []\<rparr>))
                (nat (samples a)) variants
                (measurements ((profiled a w s)\<lparr>measurements := []\<rparr>))\<rparr>)"
    by (simp only: bench_script_started [OF st] variant_loop_pos [OF assms(1) ok] andthen_None)
  also have "\<dots> = logging a (environ_get ''DATABASE'' ''solutions.db'' s) w (sampled_state a w s)"
    by (cases s)
      (simp add: profiled_def prepared_def sampled_state_def first_solver_def setenv_def
        log_event_def)
  finally show ?thesis .
qed

lemma bench_script_nonpos:
  assumes "samples a \<le> 0" and "children_ok a w s"
  shows "bench_script a w s =
    (Some ZeroDivisionError,
     s\<lparr>environ := (environ s)(''DATABASE'' \<mapsto> ''bench.db''),
        trace := trace s @ setup_events a w s,
        spawned := spawned s + (if profile a then 1 else 0),
        measurements := [(''2-10000-1-2'', Samples [])]\<rparr>)"
proof -
  from assms(2) have st: "profile a \<longrightarrow> starts (child_at w (spawned s))"
    by (simp add: children_ok_iff)
  show ?thesis
    unfolding bench_script_started [OF st]
    by (cases s)
      (simp add: variants_def bench_variant_nonpos [OF assms(1)] andthen_Some profiled_def
        prepared_def first_solver_def setenv_def log_event_def)
qed

lemma bench_script_children_fail:
  assumes "\<not> children_ok a w s" and "0 < samples a"
  shows "fst (bench_script a w s) \<noteq> None"
proof (cases "profile a \<longrightarrow> starts (child_at w (spawned s))")
  case False
  then have "profile a" and "\<not> starts (child_at w (spawned s))" by simp_all
  from setup_fails [OF this] show ?thesis by simp
next
  case True
  with assms(1) have "\<not> (\<forall>i<nat (samples a) * length variants.
      solver_ok w (spawned ((profiled a w s)\<lparr>measurements := []\<rparr>) + i))"
    by (simp add: children_ok_iff spawned_profiled)
  then have "fst (variant_loop (samples a) variants w ((profiled a w s)\<lparr>measurements := []\<rparr>))
      \<noteq> None"
    using variant_loop_None_iff [OF assms(2)] by blast
  then show ?thesis
    unfolding bench_script_started [OF True] by (rule fst_andthen_error)
qed

lemma logging_fst: "fst (logging a db w s) = (if open_fails w then Some OSError else None)"
  by (simp add: logging_def Let_def)

lemma logging_environ: "environ (snd (logging a db w s)) = (environ s)(''DATABASE'' \<mapsto> db)"
  by (simp add: logging_def Let_def setenv_def log_event_def)

lemma logging_measurements:
  "measurements (snd (logging a db w s)) =
     (if open_fails w then measurements s
      else dict_set ''note'' (Text (note_text a)) (measurements s))"
  by (simp add: logging_def Let_def setenv_def log_event_def)

lemma logging_trace:
  "trace (snd (logging a db w s)) =
     trace s @ SetEnv ''DATABASE'' db #
       (if open_fails w then []
        else [Dump (output_path (now_at w)) (dict_set ''note'' (Text (note_text a)) (measurements s))])"
  by (simp add: logging_def Let_def setenv_def log_event_def)

lemma logging_files:
  "files (snd (logging a db w s)) =
     (if open_fails w then files s
      else (files s)(output_path (now_at w) \<mapsto>
              dict_set ''note'' (Text (note_text a)) (measurements s)))"
  by (simp add: logging_def Let_def setenv_def log_event_def)

lemma sampled_variants:
  "sampled w t k variants [] =
     [(''2-10000-1-2'', Samples (samples_from w t k)),
      (''2-10000-3-5-7-11'', Samples (samples_from w (t + 2 * k) k)),
      (''4-10000-1-2'', Samples (samples_from w (t + 4 * k) k)),
      (''4-10000-3-5-7-11'', Samples (samples_from w (t + 6 * k) k))]"
  by (simp add: variants_def add.assoc)

lemma sampled_with_note:
  "dict_set ''note'' x (sampled w t k variants []) = sampled w t k variants [] @ [(''note'', x)]"
  by (simp add: sampled_variants)

lemma dict_get_sampled:
  "i < length variants \<Longrightarrow>
   dict_get (variants ! i) (sampled w t k variants [] @ extra) =
     Some (Samples (samples_from w (t + 2 * k * i) k))"
proof -
  assume "i < length variants"
  then have "i = 0 \<or> i = 1 \<or> i = 2 \<or> i = 3"
    by (auto simp: variants_def)
  then show ?thesis
    by (auto simp: sampled_variants dict_get_def variants_def add.commute)
qed

lemma measurements_bench_script_pos:
  assumes "0 < samples a" and "children_ok a w s"
  shows "measurements (snd (bench_script a w s)) =
           sampled w (ticks s) (nat (samples a)) variants [] @
           (if open_fails w then [] else [(''note'', Text (note_text a))])"
  by (simp add: bench_script_pos [OF assms] logging_measurements sampled_state_def
      sampled_with_note)


lemma spawns_of_append: "spawns_of (xs @ ys) = spawns_of xs @ spawns_of ys"
  by (induction xs rule: spawns_of.induct) simp_all

lemma spawns_of_replicate: "spawns_of (replicate k (Spawn argv c)) = replicate k (argv, c)"
  by (induction k) simp_all

lemma spawns_of_sampling_events:
  "spawns_of (sampling_events w t k vs) = concat (map (\<lambda>v. replicate k (solve_argv v, True)) vs)"
  by (induction vs arbitrary: t) (simp_all add: spawns_of_append spawns_of_replicate)

lemma spawns_of_setup_events:
  "spawns_of (setup_events a w s) =
     (if profile a then [(flamegraph_argv heavy_variant, False)] else [])"
  by (simp add: setup_events_def)





lemma fst_bench_script:
  assumes "children_ok a w s"
  shows "fst (bench_script a w s) =
     (if samples a \<le> 0 then Some ZeroDivisionError
      else if open_fails w then Some OSError else None)"
proof (cases "0 < samples a")
  case True
  then show ?thesis by (simp add: bench_script_pos [OF True assms] logging_fst)
next
  case False
  then have le: "samples a \<le> 0" by simp
  show ?thesis using le by (simp add: bench_script_nonpos [OF le assms])
qed

lemma completes_iff:
  "fst (bench_script a w s) = None \<longleftrightarrow> 0 < samples a \<and> \<not> open_fails w \<and> children_ok a w s"
proof (cases "children_ok a w s")
  case True
  then show ?thesis by (simp add: fst_bench_script)
next
  case False
  have "fst (bench_script a w s) \<noteq> None"
  proof (cases "0 < samples a")
    case True
    from bench_script_children_fail [OF False True] show ?thesis .
  next
    case nonpos: False
    with False have "profile a" and "\<not> starts (child_at w (spawned s))"
      by (auto simp: children_ok_iff)
    from setup_fails [OF this] show ?thesis by simp
  qed
  with False show ?thesis by auto
qed

lemma recorded_sampled:
  "i < length variants \<Longrightarrow>
   recorded (variants ! i) (s\<lparr>measurements := sampled w t k variants [] @ extra\<rparr>) =
     samples_from w (t + 2 * k * i) k"
  by (simp add: recorded_def dict_get_sampled)

lemma trace_bench_script_pos:
  assumes "0 < samples a" and "children_ok a w s"
  shows "trace (snd (bench_script a w s)) =
     trace s @ setup_events a w s @ sampling_events w (ticks s) (nat (samples a)) variants @
     SetEnv ''DATABASE'' (environ_get ''DATABASE'' ''solutions.db'' s) #
       (if open_fails w then []
        else [Dump (output_path (now_at w)) (measurements (snd (bench_script a w s)))])"
  unfolding measurements_bench_script_pos [OF assms]
  by (simp add: bench_script_pos [OF assms] logging_trace sampled_state_def sampled_with_note)

lemma environ_bench_script_pos:
  assumes "0 < samples a" and "children_ok a w s"
  shows "environ (snd (bench_script a w s)) =
     (environ s)(''DATABASE'' \<mapsto> environ_get ''DATABASE'' ''solutions.db'' s)"
  by (simp add: bench_script_pos [OF assms] logging_environ sampled_state_def)

lemma files_bench_script_pos:
  assumes "0 < samples a" and "children_ok a w s"
  shows "files (snd (bench_script a w s)) =
     (if open_fails w then files s
      else (files s)(output_path (now_at w) \<mapsto> measurements (snd (bench_script a w s))))"
  unfolding measurements_bench_script_pos [OF assms]
  by (simp add: bench_script_pos [OF assms] logging_files sampled_state_def sampled_with_note)

lemma spawns_of_bench_script:
  assumes "children_ok a w s"
  shows "spawns_of (trace (snd (bench_script a w s))) =
     spawns_of (trace s) @
     (if profile a then [(flamegraph_argv heavy_variant, False)] else []) @
     concat (map (\<lambda>v. replicate (nat (samples a)) (solve_argv v, True)) variants)"
proof (cases "0 < samples a")
  case True
  show ?thesis
    by (simp add: bench_script_pos [OF True assms] logging_trace sampled_state_def spawns_of_append
        spawns_of_sampling_events spawns_of_setup_events)
next
  case False
  then have le: "samples a \<le> 0" by simp
  show ?thesis
    using le
    by (simp add: bench_script_nonpos [OF le assms] spawns_of_append spawns_of_setup_events)
qed


subsection \<open>No run starts the vacuum\<close>

lemma vacuum_children_append:
  "vacuum_children (xs @ ys) = vacuum_children xs @ vacuum_children ys"
  by (simp add: vacuum_children_def spawns_of_append)

lemma snd_discard: "snd (discard r) = snd r"
  by (cases r) (auto simp: discard_def split: sum.splits)

lemma vacuum_children_subprocess_run:
  assumes "argv \<noteq> vacuum_argv"
  shows "vacuum_children (trace (snd (subprocess_run argv c t w s))) = vacuum_children (trace s)"
  using assms
  by (simp add: subprocess_run_def Let_def log_event_def vacuum_children_append)
    (simp add: vacuum_children_def)

lemma solve_argv_not_vacuum: "solve_argv v \<noteq> vacuum_argv"
  by (simp add: solve_argv_def vacuum_argv_def)

lemma flamegraph_argv_not_vacuum: "flamegraph_argv v \<noteq> vacuum_argv"
  by (simp add: flamegraph_argv_def vacuum_argv_def)

lemma vacuum_children_andthen:
  assumes "vacuum_children (trace (snd r)) = X"
    and "\<And>s. vacuum_children (trace (snd (f s))) = vacuum_children (trace s)"
  shows "vacuum_children (trace (snd (andthen r f))) = X"
  using assms by (cases r) (auto simp: andthen_def split: option.splits)

lemma vacuum_children_solve_zero_by:
  "vacuum_children (trace (snd (solve_zero_by v w s))) = vacuum_children (trace s)"
  by (simp add: solve_zero_by_def snd_discard vacuum_children_subprocess_run solve_argv_not_vacuum)

lemma vacuum_children_flamegraph:
  "vacuum_children (trace (snd (flamegraph v w s))) = vacuum_children (trace s)"
  by (simp add: flamegraph_def snd_discard vacuum_children_subprocess_run
      flamegraph_argv_not_vacuum)

lemma vacuum_children_sample_once:
  "vacuum_children (trace (snd (sample_once v w s))) = vacuum_children (trace s)"
proof -
  have "vacuum_children (trace (snd (solve_zero_by v w (s\<lparr>ticks := ticks s + 1\<rparr>)))) =
        vacuum_children (trace s)"
    by (simp add: vacuum_children_solve_zero_by)
  then show ?thesis
    unfolding sample_once_def time_time_def Let_def prod.case
    by (rule vacuum_children_andthen) (simp split: sum.splits)
qed

lemma vacuum_children_sample_loop:
  "vacuum_children (trace (snd (sample_loop k v w s))) = vacuum_children (trace s)"
proof (induction k arbitrary: s)
  case 0
  show ?case by simp
next
  case (Suc k)
  show ?case
    unfolding sample_loop.simps
    by (rule vacuum_children_andthen [OF vacuum_children_sample_once Suc.IH])
qed

lemma vacuum_children_print_mean:
  "vacuum_children (trace (snd (print_mean v s))) = vacuum_children (trace s)"
  by (simp add: print_mean_def log_event_def vacuum_children_append
      split: option.splits sum.splits)
    (simp add: vacuum_children_def)

lemma vacuum_children_bench_variant:
  "vacuum_children (trace (snd (bench_variant n v w s))) = vacuum_children (trace s)"
proof -
  have "vacuum_children (trace (snd (sample_loop (nat n) v w
      (s\<lparr>measurements := dict_set v (Samples []) (measurements s)\<rparr>)))) = vacuum_children (trace s)"
    by (simp add: vacuum_children_sample_loop)
  then show ?thesis
    unfolding bench_variant_def
    by (rule vacuum_children_andthen) (rule vacuum_children_print_mean)
qed

lemma vacuum_children_variant_loop:
  "vacuum_children (trace (snd (variant_loop n vs w s))) = vacuum_children (trace s)"
proof (induction vs arbitrary: s)
  case Nil
  show ?case by simp
next
  case (Cons v vs)
  show ?case
    unfolding variant_loop.simps
    by (rule vacuum_children_andthen [OF vacuum_children_bench_variant Cons.IH])
qed

lemma vacuum_children_logging:
  "vacuum_children (trace (snd (logging a db w s))) = vacuum_children (trace s)"
  by (simp add: logging_trace vacuum_children_append) (simp add: vacuum_children_def)

lemma vacuum_children_bench_script:
  "vacuum_children (trace (snd (bench_script a w s))) = vacuum_children (trace s)"
proof -
  have p: "vacuum_children (trace (prepared a s)) = vacuum_children (trace s)"
    by (simp add: prepared_def setenv_def log_event_def vacuum_children_append)
      (simp add: vacuum_children_def)
  have first: "vacuum_children (trace (snd
      (if profile a then flamegraph heavy_variant w (prepared a s) else (None, prepared a s)))) =
      vacuum_children (trace s)"
    by (simp add: vacuum_children_flamegraph p)
  have rest: "\<And>s3. vacuum_children (trace (snd
      (andthen (variant_loop (samples a) variants w (s3\<lparr>measurements := []\<rparr>))
        (logging a (environ_get ''DATABASE'' ''solutions.db'' s) w)))) = vacuum_children (trace s3)"
  proof -
    fix s3
    have "vacuum_children (trace (snd (variant_loop (samples a) variants w
        (s3\<lparr>measurements := []\<rparr>)))) = vacuum_children (trace s3)"
      by (simp add: vacuum_children_variant_loop)
    then show "vacuum_children (trace (snd
      (andthen (variant_loop (samples a) variants w (s3\<lparr>measurements := []\<rparr>))
        (logging a (environ_get ''DATABASE'' ''solutions.db'' s) w)))) = vacuum_children (trace s3)"
      by (rule vacuum_children_andthen) (rule vacuum_children_logging)
  qed
  show ?thesis
    unfolding bench_script_unfold
    by (rule vacuum_children_andthen [OF first rest])
qed

subsection \<open>Exit statuses are never read\<close>








lemma children_ok_exit_status:
  "children_ok a (with_exit_status st w) s = children_ok a w s"
  by (simp add: children_ok_def solver_ok_def with_exit_status_def)

subsection \<open>The concrete worlds\<close>

lemma children_ok_demo_world: "children_ok a demo_world s"
  by (simp add: children_ok_iff solver_ok_def demo_world_def)




lemma fst_bench_script_demo_world:
  "fst (bench_script a demo_world s) = (if samples a \<le> 0 then Some ZeroDivisionError else None)"
proof -
  have "\<not> open_fails demo_world" by (simp add: demo_world_def)
  then show ?thesis
    by (simp add: fst_bench_script [OF children_ok_demo_world])
qed

subsection \<open>A solver whose output does not decode\<close>





subsection \<open>The stamp orders as the calendar does\<close>


























section \<open>The claims\<close>

text \<open>
  C1. The script body never calls \<^verbatim>\<open>init_bench_database\<close>: a run, whatever its arguments and
  its world, adds no \<^verbatim>\<open>sqlite3\<close> child to the trace, whereas a call of
  \<^verbatim>\<open>init_bench_database\<close> would add exactly that child (when \<^verbatim>\<open>sqlite3\<close> can be started). In
  the default invocation the children are the twelve solver runs and nothing else.
\<close>

theorem vacuum_never_run:
  "filter (\<lambda>p. fst p = vacuum_argv) (spawns_of (trace (snd (bench_script a w s)))) =
     filter (\<lambda>p. fst p = vacuum_argv) (spawns_of (trace s)) \<and>
   spawns_of (trace (snd (init_bench_database w s))) =
     spawns_of (trace s) @
     (if starts (child_at w (spawned s)) then [(vacuum_argv, True)] else []) \<and>
   spawns_of (trace (snd (bench_script default_args demo_world (initial_state Map.empty)))) =
     concat (map (\<lambda>v. replicate 3 (solve_argv v, True)) variants)"
proof -
  have A: "filter (\<lambda>p. fst p = vacuum_argv) (spawns_of (trace (snd (bench_script a w s)))) =
     filter (\<lambda>p. fst p = vacuum_argv) (spawns_of (trace s))"
    using vacuum_children_bench_script [of a w s] by (simp only: vacuum_children_def)
  have B: "spawns_of (trace (snd (init_bench_database w s))) =
     spawns_of (trace s) @
     (if starts (child_at w (spawned s)) then [(vacuum_argv, True)] else [])"
    by (simp add: init_bench_database_def snd_discard subprocess_run_def log_event_def Let_def
        spawns_of_append)
  have C: "spawns_of (trace (snd (bench_script default_args demo_world (initial_state Map.empty)))) =
     concat (map (\<lambda>v. replicate 3 (solve_argv v, True)) variants)"
    unfolding spawns_of_bench_script [OF children_ok_demo_world]
    by (simp add: default_args_def parse_args_def initial_state_def)
  from A B C show ?thesis by blast
qed

text \<open>
  C2 (counterexample). As the claim states it, the variable read after a completed run
  equals the variable read before it also when it was unset. It does not: from an
  environment without \<^verbatim>\<open>DATABASE\<close> the default invocation completes and leaves
  \<^verbatim>\<open>DATABASE\<close> set to \<^verbatim>\<open>"solutions.db"\<close>, the fallback of the read at the start.
\<close>

theorem database_unset_becomes_default:
  "fst (bench_script default_args demo_world (initial_state Map.empty)) = None \<and>
   environ (initial_state Map.empty) ''DATABASE'' = None \<and>
   environ (snd (bench_script default_args demo_world (initial_state Map.empty))) ''DATABASE'' =
     Some ''solutions.db''"
proof -
  have pos: "0 < samples default_args"
    by (simp add: default_args_def parse_args_def)
  have "fst (bench_script default_args demo_world (initial_state Map.empty)) = None"
    by (simp add: fst_bench_script_demo_world default_args_def parse_args_def)
  moreover have "environ (initial_state Map.empty) ''DATABASE'' = None"
    by (simp add: initial_state_def)
  moreover have "environ (snd (bench_script default_args demo_world (initial_state Map.empty)))
      ''DATABASE'' = Some ''solutions.db''"
    by (simp add: environ_bench_script_pos [OF pos children_ok_demo_world] environ_get_def
        initial_state_def)
  ultimately show ?thesis by blast
qed

text \<open>
  C2. As amended: in a run that completes, the restore puts back what the read at the start
  returned. A \<^verbatim>\<open>DATABASE\<close> that was set has its former value again; one that was unset is
  set to the fallback \<^verbatim>\<open>"solutions.db"\<close>; no other variable changes. The restore comes after
  the setup and all sampling, and right before the dump, which is the last event.
\<close>

theorem database_restored:
  assumes "fst (bench_script a w s) = None" and "s' = snd (bench_script a w s)"
  shows "environ s' = (environ s)(''DATABASE'' \<mapsto> environ_get ''DATABASE'' ''solutions.db'' s) \<and>
         (environ s ''DATABASE'' \<noteq> None \<longrightarrow> environ s' ''DATABASE'' = environ s ''DATABASE'') \<and>
         (environ s ''DATABASE'' = None \<longrightarrow> environ s' ''DATABASE'' = Some ''solutions.db'') \<and>
         trace s' =
           trace s @ setup_events a w s @
           sampling_events w (ticks s) (nat (samples a)) variants @
           [SetEnv ''DATABASE'' (environ_get ''DATABASE'' ''solutions.db'' s),
            Dump (output_path (now_at w)) (measurements s')]"
proof -
  from assms(1) have pos: "0 < samples a" and ok: "\<not> open_fails w" and ch: "children_ok a w s"
    by (simp_all add: completes_iff)
  have e: "environ s' = (environ s)(''DATABASE'' \<mapsto> environ_get ''DATABASE'' ''solutions.db'' s)"
    unfolding assms(2) by (rule environ_bench_script_pos [OF pos ch])
  have t: "trace s' =
           trace s @ setup_events a w s @
           sampling_events w (ticks s) (nat (samples a)) variants @
           [SetEnv ''DATABASE'' (environ_get ''DATABASE'' ''solutions.db'' s),
            Dump (output_path (now_at w)) (measurements s')]"
    unfolding assms(2) using ok by (simp add: trace_bench_script_pos [OF pos ch])
  have s1: "environ s ''DATABASE'' \<noteq> None \<longrightarrow> environ s' ''DATABASE'' = environ s ''DATABASE''"
    unfolding e by (auto simp: environ_get_def)
  have s2: "environ s ''DATABASE'' = None \<longrightarrow> environ s' ''DATABASE'' = Some ''solutions.db''"
    unfolding e by (simp add: environ_get_def)
  from e t s1 s2 show ?thesis by blast
qed

theorem database_restored_witness:
  "fst (bench_script default_args demo_world (initial_state [''DATABASE'' \<mapsto> ''mine.db''])) = None \<and>
   environ (initial_state [''DATABASE'' \<mapsto> ''mine.db'']) ''DATABASE'' = Some ''mine.db'' \<and>
   environ (snd (bench_script default_args demo_world (initial_state [''DATABASE'' \<mapsto> ''mine.db''])))
     ''DATABASE'' = Some ''mine.db'' \<and>
   last (trace (snd (bench_script default_args demo_world
      (initial_state [''DATABASE'' \<mapsto> ''mine.db''])))) =
     Dump (output_path (now_at demo_world))
       (measurements (snd (bench_script default_args demo_world
          (initial_state [''DATABASE'' \<mapsto> ''mine.db'']))))"
proof -
  have h: "fst (bench_script default_args demo_world
      (initial_state [''DATABASE'' \<mapsto> ''mine.db''])) = None"
    by (simp add: fst_bench_script_demo_world default_args_def parse_args_def)
  have i: "environ (initial_state [''DATABASE'' \<mapsto> ''mine.db'']) ''DATABASE'' = Some ''mine.db''"
    by (simp add: initial_state_def)
  have g: "environ_get ''DATABASE'' ''solutions.db''
      (initial_state [''DATABASE'' \<mapsto> ''mine.db'']) = ''mine.db''"
    by (simp add: environ_get_def initial_state_def)
  show ?thesis
    using h i g database_restored [OF h refl]
    by simp
qed



text \<open>
  C4. In a run that completes, the file written at the timestamped path holds the final
  dictionary; its keys are the four variants of the fixed sequence, in order, followed by
  \<^verbatim>\<open>"note"\<close>, and the value under \<^verbatim>\<open>"note"\<close> is the note text of the arguments. The dump is
  the last event of the run.
\<close>

theorem output_keys:
  assumes "fst (bench_script a w s) = None" and "s' = snd (bench_script a w s)"
  shows "files s' (output_path (now_at w)) = Some (measurements s') \<and>
         map fst (measurements s') = variants @ [''note''] \<and>
         set (map fst (measurements s')) = set variants \<union> {''note''} \<and>
         dict_get ''note'' (measurements s') = Some (Text (note_text a)) \<and>
         last (trace s') = Dump (output_path (now_at w)) (measurements s')"
proof -
  from assms(1) have pos: "0 < samples a" and ok: "\<not> open_fails w" and ch: "children_ok a w s"
    by (simp_all add: completes_iff)
  have m: "measurements s' = sampled w (ticks s) (nat (samples a)) variants [] @
           [(''note'', Text (note_text a))]"
    unfolding assms(2) using ok by (simp add: measurements_bench_script_pos [OF pos ch])
  have f: "files s' (output_path (now_at w)) = Some (measurements s')"
    unfolding assms(2) using ok by (simp add: files_bench_script_pos [OF pos ch])
  have k: "map fst (measurements s') = variants @ [''note'']"
    unfolding m by (simp add: sampled_variants variants_def)
  have n: "dict_get ''note'' (measurements s') = Some (Text (note_text a))"
    unfolding m by (simp add: sampled_variants dict_get_def)
  have l: "last (trace s') = Dump (output_path (now_at w)) (measurements s')"
    unfolding assms(2) using ok by (simp add: trace_bench_script_pos [OF pos ch])
  have ks: "set (map fst (measurements s')) = set variants \<union> {''note''}"
    unfolding k by simp
  from f k ks n l show ?thesis by blast
qed

theorem output_keys_witness:
  "fst (bench_script (default_args\<lparr>note_text := ''baseline v1''\<rparr>) demo_world
      (initial_state Map.empty)) = None \<and>
   map fst (measurements (snd (bench_script (default_args\<lparr>note_text := ''baseline v1''\<rparr>)
      demo_world (initial_state Map.empty)))) =
     [''2-10000-1-2'', ''2-10000-3-5-7-11'', ''4-10000-1-2'', ''4-10000-3-5-7-11'', ''note''] \<and>
   dict_get ''note'' (measurements (snd (bench_script (default_args\<lparr>note_text := ''baseline v1''\<rparr>)
      demo_world (initial_state Map.empty)))) = Some (Text ''baseline v1'') \<and>
   files (snd (bench_script (default_args\<lparr>note_text := ''baseline v1''\<rparr>) demo_world
      (initial_state Map.empty))) (output_path (now_at demo_world)) =
     Some (measurements (snd (bench_script (default_args\<lparr>note_text := ''baseline v1''\<rparr>)
      demo_world (initial_state Map.empty))))"
proof -
  have h: "fst (bench_script (default_args\<lparr>note_text := ''baseline v1''\<rparr>) demo_world
      (initial_state Map.empty)) = None"
    by (simp add: fst_bench_script_demo_world default_args_def parse_args_def)
  show ?thesis
    using h output_keys [OF h refl]
    by (simp add: variants_def)
qed














text \<open>
  C10. \<^verbatim>\<open>--profile\<close> is declared with \<^verbatim>\<open>type=bool\<close> and \<^verbatim>\<open>default=False\<close>, so the flag
  resolves to true exactly when it is given a non-empty string, \<^verbatim>\<open>"False"\<close> and \<^verbatim>\<open>"0"\<close>
  included, and to false only when it is omitted or given the empty string.
\<close>

theorem profile_flag_truthiness:
  "(profile (parse_args r) \<longleftrightarrow> (\<exists>t. profile_arg r = Some t \<and> t \<noteq> [])) \<and>
   (\<not> profile (parse_args r) \<longleftrightarrow> profile_arg r = None \<or> profile_arg r = Some []) \<and>
   profile (parse_args (r\<lparr>profile_arg := Some ''False''\<rparr>)) \<and>
   profile (parse_args (r\<lparr>profile_arg := Some ''0''\<rparr>))"
  by (cases "profile_arg r") (simp_all add: parse_args_def py_bool_def)

end
